theory Spec2Isabelle
  imports Main
begin

section \<open>Errors\<close>

text \<open>
  Go errors as values. \<open>errors.New msg\<close> builds an \<open>errorString\<close>; \<open>fmt.Errorf\<close> with one
  \<open>%w\<close> verb builds a \<open>wrapError\<close> that carries the formatted message and the wrapped error.
  A nil error is \<open>None\<close> of \<open>error option\<close>.
\<close>

datatype error = errorString string | wrapError string error

fun Error :: "error \<Rightarrow> string" where
  "Error (errorString s) = s"
| "Error (wrapError msg err) = msg"

fun Unwrap :: "error \<Rightarrow> error option" where
  "Unwrap (errorString s) = None"
| "Unwrap (wrapError msg err) = Some err"

text \<open>\<open>errors.Is\<close>: the target is the error itself or is found down its chain.\<close>

fun errors_Is :: "error \<Rightarrow> error \<Rightarrow> bool" where
  "errors_Is (errorString s) target = (errorString s = target)"
| "errors_Is (wrapError msg err) target = (wrapError msg err = target \<or> errors_Is err target)"

definition errMismatchedPlatformTypes :: error where
  "errMismatchedPlatformTypes = errorString ''mistmatched platform types''"

definition errUnsupportedPlatformType :: error where
  "errUnsupportedPlatformType = errorString ''unsupported platform type''"

section \<open>Data model\<close>

text \<open>\<open>configv1.PlatformType\<close> is a string type; \<open>configv1.AWSPlatformType\<close> is its constant "AWS".\<close>

type_synonym PlatformType = string

definition AWSPlatformType :: PlatformType where
  "AWSPlatformType = ''AWS''"

text \<open>
  Modelled from the spec: the \<open>failuredomain.FailureDomain\<close> interface is declared in another
  package. The spec describes it as a value keyed by platform type plus placement
  coordinates. A nil interface value is \<open>None\<close> of \<open>FailureDomain option\<close>.
\<close>

record FailureDomain =
  fdPlatform :: PlatformType
  fdZone :: string

text \<open>
  Modelled from the spec: the \<open>AWSProviderConfig\<close> struct is declared in a sibling file. The
  fields are the ones the spec names for the AWS implementation; the Go zero value has every
  field empty.
\<close>

record AWSProviderConfig =
  availabilityZone :: string
  subnet :: string
  instanceType :: string

definition zeroAWSProviderConfig :: AWSProviderConfig where
  "zeroAWSProviderConfig = \<lparr>availabilityZone = [], subnet = [], instanceType = []\<rparr>"

text \<open>
  The machine template \<open>machinev1.OpenShiftMachineV1Beta1MachineTemplate\<close>, with the fields
  this package can read: the platform of the structured failure domains and the raw provider
  spec \<open>tmpl.Spec.ProviderSpec.Value\<close>, a pointer to a \<open>runtime.RawExtension\<close> (nil is \<open>None\<close>).
\<close>

record RawExtension =
  Raw :: string

record ProviderSpec =
  Value :: "RawExtension option"

record MachineSpec =
  ProviderSpec :: ProviderSpec

record FailureDomains =
  Platform :: PlatformType

record OpenShiftMachineV1Beta1MachineTemplate =
  FailureDomains :: FailureDomains
  Spec :: MachineSpec

text \<open>The struct \<open>providerConfig\<close>, the only implementation of the interface.\<close>

record providerConfig =
  platformType :: PlatformType
  aws :: AWSProviderConfig

text \<open>A value of the interface \<open>ProviderConfig\<close>: nil or a \<open>providerConfig\<close>.\<close>

type_synonym ProviderConfig = "providerConfig option"

section \<open>Operations\<close>

text \<open>Go's multiple results are tuples; the last component is the error, \<open>None\<close> for nil.\<close>

definition getPlatformType ::
  "OpenShiftMachineV1Beta1MachineTemplate \<Rightarrow> PlatformType \<times> error option" where
  "getPlatformType tmpl = ([], None)"

text \<open>
  \<open>newAWSProviderConfig\<close> is defined in a sibling file; the dispatcher takes it as a
  parameter.
\<close>

definition NewProviderConfig ::
  "(RawExtension option \<Rightarrow> ProviderConfig \<times> error option) \<Rightarrow>
   OpenShiftMachineV1Beta1MachineTemplate \<Rightarrow> ProviderConfig \<times> error option" where
  "NewProviderConfig newAWSProviderConfig tmpl =
     (let (platformType, err) = getPlatformType tmpl in
        case err of
          Some e \<Rightarrow>
            (None, Some (wrapError (''could not determine platform type: '' @ Error e) e))
        | None \<Rightarrow>
            if platformType = AWSPlatformType
            then newAWSProviderConfig (Value (ProviderSpec (Spec tmpl)))
            else (None, Some (wrapError (Error errUnsupportedPlatformType @ '': '' @ platformType)
                                errUnsupportedPlatformType)))"

definition InjectFailureDomain ::
  "providerConfig \<Rightarrow> FailureDomain option \<Rightarrow> ProviderConfig \<times> error option" where
  "InjectFailureDomain p fd = (Some p, None)"

definition ExtractFailureDomain :: "providerConfig \<Rightarrow> FailureDomain option" where
  "ExtractFailureDomain p = None"

definition Equal :: "providerConfig \<Rightarrow> ProviderConfig \<Rightarrow> bool \<times> error option" where
  "Equal p other = (False, None)"

definition RawConfig :: "providerConfig \<Rightarrow> string \<times> error option" where
  "RawConfig p = ([], None)"

definition Type :: "providerConfig \<Rightarrow> PlatformType" where
  "Type p = platformType p"


section \<open>Calls and compositions\<close>

text \<open>
  \<open>InjectFailureDomain\<close> has a value receiver: Go runs the body on a copy of the caller's
  value, and the body assigns to nothing. A call is the pair of the caller's value after the
  call and the results.
\<close>

definition call_InjectFailureDomain ::
  "providerConfig \<Rightarrow> FailureDomain option \<Rightarrow> providerConfig \<times> (ProviderConfig \<times> error option)" where
  "call_InjectFailureDomain p fd = (p, InjectFailureDomain p fd)"

text \<open>
  Injection followed by extraction on the returned value: \<open>p.InjectFailureDomain(fd)\<close>, then
  \<open>ExtractFailureDomain()\<close> on the result when there is one.
\<close>

definition injectThenExtract ::
  "providerConfig \<Rightarrow> FailureDomain option \<Rightarrow> FailureDomain option \<times> error option" where
  "injectThenExtract p fd =
     (case InjectFailureDomain p fd of
        (Some q, None) \<Rightarrow> (ExtractFailureDomain q, None)
      | (_, err) \<Rightarrow> (None, err))"

text \<open>
  The round trip: build a config from a template, serialise it with \<open>RawConfig\<close>, build a
  second config from the template carrying those bytes as its provider spec, and compare the
  first with the second. The first error met is the result.
\<close>

definition withRaw ::
  "OpenShiftMachineV1Beta1MachineTemplate \<Rightarrow> string \<Rightarrow> OpenShiftMachineV1Beta1MachineTemplate" where
  "withRaw tmpl bytes =
     tmpl\<lparr>Spec := (Spec tmpl)\<lparr>ProviderSpec := \<lparr>Value = Some \<lparr>Raw = bytes\<rparr>\<rparr>\<rparr>\<rparr>"

definition roundTrip ::
  "(RawExtension option \<Rightarrow> ProviderConfig \<times> error option) \<Rightarrow>
   OpenShiftMachineV1Beta1MachineTemplate \<Rightarrow> bool \<times> error option" where
  "roundTrip newAWSProviderConfig tmpl =
     (case NewProviderConfig newAWSProviderConfig tmpl of
        (Some p, None) \<Rightarrow>
          (case RawConfig p of
             (bytes, None) \<Rightarrow>
               (case NewProviderConfig newAWSProviderConfig (withRaw tmpl bytes) of
                  (Some q, None) \<Rightarrow> Equal p (Some q)
                | (_, err) \<Rightarrow> (False, err))
           | (_, err) \<Rightarrow> (False, err))
      | (_, err) \<Rightarrow> (False, err))"

section \<open>Configs the package builds\<close>

text \<open>
  The type \<open>providerConfig\<close> and its two fields are unexported, so a value comes from this
  package only. The one constructor call of the dispatcher sits under
  \<open>case configv1.AWSPlatformType\<close>, and no method writes a field. So a config holds the data
  of its own platform only: the \<open>aws\<close> field is set on an AWS config and is the zero value
  on any other.
\<close>

definition ownPlatformData :: "providerConfig \<Rightarrow> bool" where
  "ownPlatformData p = (platformType p = AWSPlatformType \<or> aws p = zeroAWSProviderConfig)"

section \<open>Sample values\<close>

definition awsConfig :: providerConfig where
  "awsConfig =
     \<lparr>platformType = ''AWS'',
      aws = \<lparr>availabilityZone = ''us-east-1a'', subnet = ''subnet-123'',
             instanceType = ''m5.xlarge''\<rparr>\<rparr>"

definition azureConfig :: providerConfig where
  "azureConfig = \<lparr>platformType = ''Azure'', aws = zeroAWSProviderConfig\<rparr>"

definition awsDomain :: FailureDomain where
  "awsDomain = \<lparr>fdPlatform = ''AWS'', fdZone = ''us-east-1b''\<rparr>"

definition azureDomain :: FailureDomain where
  "azureDomain = \<lparr>fdPlatform = ''Azure'', fdZone = ''2''\<rparr>"

text \<open>
  Three templates: an AWS one, with the platform given in the failure domains and in the kind
  of the provider spec; one of a platform with no implementation; one whose provider spec is
  not JSON and whose failure domains name no platform.
\<close>

definition awsTemplate :: OpenShiftMachineV1Beta1MachineTemplate where
  \<open>awsTemplate =
     \<lparr>FailureDomains = \<lparr>Platform = ''AWS''\<rparr>,
      Spec = \<lparr>ProviderSpec = \<lparr>Value = Some
        \<lparr>Raw = ''{"kind":"AWSMachineProviderConfig","placement":{"availabilityZone":"us-east-1a"}}''\<rparr>\<rparr>\<rparr>\<rparr>\<close>

definition nutanixTemplate :: OpenShiftMachineV1Beta1MachineTemplate where
  \<open>nutanixTemplate =
     \<lparr>FailureDomains = \<lparr>Platform = ''Nutanix''\<rparr>,
      Spec = \<lparr>ProviderSpec = \<lparr>Value = Some
        \<lparr>Raw = ''{"kind":"NutanixMachineProviderConfig"}''\<rparr>\<rparr>\<rparr>\<rparr>\<close>

definition malformedTemplate :: OpenShiftMachineV1Beta1MachineTemplate where
  \<open>malformedTemplate =
     \<lparr>FailureDomains = \<lparr>Platform = []\<rparr>,
      Spec = \<lparr>ProviderSpec = \<lparr>Value = Some \<lparr>Raw = ''{"kind":''\<rparr>\<rparr>\<rparr>\<rparr>\<close>

section \<open>Properties\<close>

lemma getPlatformType_empty: "getPlatformType tmpl = ([], None)"
  by (simp add: getPlatformType_def)

lemma NewProviderConfig_unsupported:
  "NewProviderConfig newAWSProviderConfig tmpl =
     (None, Some (wrapError ''unsupported platform type: '' errUnsupportedPlatformType))"
  by (simp add: NewProviderConfig_def getPlatformType_def AWSPlatformType_def
      errUnsupportedPlatformType_def)

text \<open>Injection keeps \<open>ownPlatformData\<close>: it hands the receiver back.\<close>

lemma InjectFailureDomain_ownPlatformData:
  "ownPlatformData p \<Longrightarrow> InjectFailureDomain p fd = (Some q, err) \<Longrightarrow> ownPlatformData q"
  by (simp add: InjectFailureDomain_def)

text \<open>
  C1, at a failing input: injecting the AWS failure domain of zone us-east-1b into an AWS
  config succeeds, and extraction from the returned config gives nil, not the injected
  domain.
\<close>

theorem inject_then_extract_loses_domain:
  "Type awsConfig = fdPlatform awsDomain \<and>
   InjectFailureDomain awsConfig (Some awsDomain) = (Some awsConfig, None) \<and>
   injectThenExtract awsConfig (Some awsDomain) = (None, None) \<and>
   fst (injectThenExtract awsConfig (Some awsDomain)) \<noteq> Some awsDomain"
  by (simp add: injectThenExtract_def InjectFailureDomain_def ExtractFailureDomain_def
      Type_def awsConfig_def awsDomain_def)

text \<open>
  C2, at a failing input: an AWS config takes an Azure failure domain and returns itself with
  a nil error, and compared with an Azure config it returns false with a nil error. Neither
  call returns \<open>errMismatchedPlatformTypes\<close>.
\<close>

theorem mismatched_platforms_not_rejected:
  "Type awsConfig \<noteq> fdPlatform azureDomain \<and>
   Type awsConfig \<noteq> Type azureConfig \<and>
   InjectFailureDomain awsConfig (Some azureDomain) = (Some awsConfig, None) \<and>
   Equal awsConfig (Some azureConfig) = (False, None) \<and>
   snd (InjectFailureDomain awsConfig (Some azureDomain)) \<noteq> Some errMismatchedPlatformTypes \<and>
   snd (Equal awsConfig (Some azureConfig)) \<noteq> Some errMismatchedPlatformTypes"
  by (simp add: InjectFailureDomain_def Equal_def Type_def awsConfig_def azureConfig_def
      azureDomain_def)

text \<open>
  C3, at a failing input: the AWS template, whose platform is in the supported set, gets no
  config but the error wrapping \<open>errUnsupportedPlatformType\<close>, whatever the AWS constructor
  would build from its provider spec.
\<close>

theorem aws_template_unsupported:
  "Platform (FailureDomains awsTemplate) = AWSPlatformType \<and>
   NewProviderConfig newAWSProviderConfig awsTemplate =
     (None, Some (wrapError ''unsupported platform type: '' errUnsupportedPlatformType))"
  by (simp add: NewProviderConfig_unsupported awsTemplate_def AWSPlatformType_def)

text \<open>
  C4, at a failing input: the round trip of the AWS template stops at its first step with the
  error wrapping \<open>errUnsupportedPlatformType\<close>. And for any config, \<open>RawConfig\<close> gives no bytes
  and \<open>Equal\<close> with the config itself is false.
\<close>

theorem round_trip_fails:
  "roundTrip newAWSProviderConfig awsTemplate =
     (False, Some (wrapError ''unsupported platform type: '' errUnsupportedPlatformType)) \<and>
   RawConfig p = ([], None) \<and>
   Equal p (Some p) = (False, None)"
  by (simp add: roundTrip_def NewProviderConfig_unsupported RawConfig_def Equal_def)

text \<open>
  C5, at a failing input: the template whose provider spec cannot be parsed gets the same
  error as the template of an unimplemented platform, an error that wraps
  \<open>errUnsupportedPlatformType\<close>.
\<close>

theorem malformed_reported_as_unsupported:
  "NewProviderConfig newAWSProviderConfig malformedTemplate =
     NewProviderConfig newAWSProviderConfig nutanixTemplate \<and>
   NewProviderConfig newAWSProviderConfig malformedTemplate =
     (None, Some (wrapError ''unsupported platform type: '' errUnsupportedPlatformType)) \<and>
   errors_Is (wrapError ''unsupported platform type: '' errUnsupportedPlatformType)
     errUnsupportedPlatformType"
  by (simp add: NewProviderConfig_unsupported errUnsupportedPlatformType_def)

text \<open>
  C6: \<open>InjectFailureDomain\<close> never mutates its receiver. After the call the caller's value is
  the one it was, so \<open>ExtractFailureDomain\<close> on it returns what it returned before the call.
\<close>

theorem InjectFailureDomain_receiver_unchanged:
  "fst (call_InjectFailureDomain p fd) = p \<and>
   ExtractFailureDomain (fst (call_InjectFailureDomain p fd)) = ExtractFailureDomain p"
  by (simp add: call_InjectFailureDomain_def)



text \<open>
  C8: for every template \<open>getPlatformType\<close> returns the empty platform type and a nil error,
  so \<open>NewProviderConfig\<close> returns a nil config and an error that wraps
  \<open>errUnsupportedPlatformType\<close>: it succeeds on no input.
\<close>

theorem NewProviderConfig_never_succeeds:
  "getPlatformType tmpl = ([], None) \<and>
   (\<exists>e. NewProviderConfig newAWSProviderConfig tmpl = (None, Some e) \<and>
        Unwrap e = Some errUnsupportedPlatformType \<and>
        errors_Is e errUnsupportedPlatformType) \<and>
   snd (NewProviderConfig newAWSProviderConfig tmpl) \<noteq> None"
  by (simp add: getPlatformType_empty NewProviderConfig_unsupported errUnsupportedPlatformType_def)

text \<open>
  C9: \<open>Equal\<close> returns false and a nil error for every receiver and every argument, nil
  included; in particular a config is never reported equal to itself.
\<close>

theorem Equal_always_false:
  "Equal p q = (False, None) \<and> Equal p (Some p) = (False, None)"
  by (simp add: Equal_def)

text \<open>
  C10: \<open>InjectFailureDomain\<close> is the identity. For every \<open>providerConfig\<close> value and every
  failure domain, nil or not and of whatever platform, it returns the receiver unchanged
  together with a nil error.
\<close>

theorem InjectFailureDomain_identity:
  "InjectFailureDomain p fd = (Some p, None)"
  by (simp add: InjectFailureDomain_def)

end
